theory Spec2Isabelle
  imports Complex_Main "HOL-Library.Multiset"
begin

section \<open>JavaScript values and control flow\<close>

text \<open>
  Numbers are modelled exactly. Pixel values are integers (the typed array returned by
  \<open>image.getPixelData()\<close>); coordinates, colour channels and the results of
  \<open>Math.random()\<close> are rationals. Every coordinate the viewers compute is an integer
  or a half-integer, which a double holds exactly; the colour channels and the
  thresholds 0.1 and 0.3 stand for their nearest doubles, and nothing proved below
  depends on the difference.

  A call either returns, throws or never returns. \<open>Inl e\<close> is a thrown error and
  \<open>Inr x\<close> a normal return; where a loop could spin forever the result is wrapped in
  \<open>option\<close> and \<open>None\<close> stands for a call that never returns.
  \<open>EmptyStackError\<close> and \<open>DimensionMismatchError\<close> are the two failures the
  specification names; \<open>TypeError\<close> is what JavaScript raises on reading a property
  of \<open>undefined\<close>.
\<close>

datatype error = EmptyStackError | DimensionMismatchError | TypeError

text \<open>\<open>a[k]\<close> on a typed array: \<open>undefined\<close> (here \<open>None\<close>) outside the array.\<close>

definition typedArrayGet :: "int list \<Rightarrow> nat \<Rightarrow> int option" where
  "typedArrayGet a k = (if k < length a then Some (a ! k) else None)"

text \<open>\<open>v < c\<close> for a value that may be \<open>undefined\<close>: \<open>undefined\<close> converts to NaN
  and every comparison with NaN is false.\<close>

definition jsLess :: "int option \<Rightarrow> int \<Rightarrow> bool" where
  "jsLess v c = (case v of None \<Rightarrow> False | Some n \<Rightarrow> n < c)"

text \<open>
  \<open>for (let v = start; v < bound; v += step) body\<close>, started at \<open>v\<close>. With
  \<open>step = 0\<close> and \<open>v < bound\<close> the JavaScript loop never ends.
\<close>

function forLoop :: "nat \<Rightarrow> nat \<Rightarrow> nat \<Rightarrow> (nat \<Rightarrow> 's \<Rightarrow> 's option) \<Rightarrow> 's \<Rightarrow> 's option" where
  "forLoop v bound step body st =
     (if v < bound then
        (if step = 0 then None
         else (case body v st of
                 None \<Rightarrow> None
               | Some st' \<Rightarrow> forLoop (v + step) bound step body st'))
      else Some st)"
  by pat_completeness auto
termination
  by (relation "measure (\<lambda>(v, bound, step, body, st). bound - v)") auto

declare forLoop.simps [simp del]

section \<open>Slices (DicomViewer1.js)\<close>

text \<open>
  A cornerstone image, as far as the viewer reads it: \<open>columns\<close>, \<open>rows\<close>, the array
  of \<open>getPixelData()\<close>, and the integer parsed from DICOM tag x00200013 when the tag is
  present and not empty.
\<close>

record dicomImage =
  columns :: nat
  rows :: nat
  pixelData :: "int list"
  instanceTag :: "int option"

record slice =
  index :: nat
  image' :: dicomImage
  instanceNumber :: int

section \<open>Scene objects (three.js)\<close>

record bufferGeometry =
  positionAttr :: "rat list"
  colorAttr :: "rat list"

record pointsMaterial =
  pointSize :: rat
  vertexColors :: bool
  transparent :: bool
  opacity :: rat

datatype object3d =
    AmbientLight nat rat
  | DirectionalLight nat rat "rat \<times> rat \<times> rat"
  | Points bufferGeometry pointsMaterial "rat \<times> rat \<times> rat"

text \<open>The scene and camera a viewer holds; the viewer's references are all null
  (\<open>None\<close>) or all set.\<close>

record three =
  children :: "object3d list"
  cameraPositionZ :: rat

text \<open>\<open>new THREE.Color(hex)\<close>: the channels \<open>r, g, b\<close>, each the byte over 255.\<close>

definition colorRGB :: "nat \<Rightarrow> rat list" where
  "colorRGB hex =
     [of_nat (hex div 65536 mod 256) / 255,
      of_nat (hex div 256 mod 256) / 255,
      of_nat (hex mod 256) / 255]"

definition blue :: nat where "blue = 0x3498db"
definition red :: nat where "red = 0xe74c3c"
definition yellow :: nat where "yellow = 0xf1c40f"

section \<open>The volume sampler (DicomViewer1.js, createVolumeFromSlices)\<close>

text \<open>The arrays the loop pushes to, and how many times \<open>Math.random()\<close> has been
  called; \<open>random k\<close> is the value of the \<open>k\<close>-th call.\<close>

record buffers =
  vertices :: "rat list"
  colors :: "rat list"
  randomCalls :: nat

definition sliceHeight :: rat where
  "sliceHeight = 1"

definition totalHeight :: "slice list \<Rightarrow> rat" where
  "totalHeight slices = of_nat (length slices) * sliceHeight"

definition samplingFactor :: nat where
  "samplingFactor = 4"

text \<open>Line 214: the row-major index of pixel \<open>(x, y)\<close>.\<close>

definition pixelIndex :: "nat \<Rightarrow> nat \<Rightarrow> nat \<Rightarrow> nat" where
  "pixelIndex y width x = y * width + x"

text \<open>The body of the innermost loop, lines 214 to 236.\<close>

definition samplePixel ::
  "(nat \<Rightarrow> rat) \<Rightarrow> int list \<Rightarrow> nat \<Rightarrow> rat \<Rightarrow> rat \<Rightarrow> rat \<Rightarrow> nat \<Rightarrow> nat \<Rightarrow> buffers \<Rightarrow> buffers" where
  "samplePixel random pixels width centerX centerY z x y st =
     (let pixelValue = typedArrayGet pixels (pixelIndex y width x);
          position = [of_nat x - centerX, - (of_nat y - centerY), z]
      in if jsLess pixelValue (- 800) then st
         else if jsLess pixelValue (- 100) then
           (let r = random (randomCalls st);
                st1 = st\<lparr>randomCalls := Suc (randomCalls st)\<rparr>
            in if r > 1 / 10 then st1
               else st1\<lparr>vertices := vertices st1 @ position,
                        colors := colors st1 @ colorRGB blue\<rparr>)
         else if jsLess pixelValue 200 then
           (let r = random (randomCalls st);
                st1 = st\<lparr>randomCalls := Suc (randomCalls st)\<rparr>
            in if r > 3 / 10 then st1
               else st1\<lparr>vertices := vertices st1 @ position,
                        colors := colors st1 @ colorRGB red\<rparr>)
         else st\<lparr>vertices := vertices st @ position,
                  colors := colors st @ colorRGB yellow\<rparr>)"

text \<open>
  Lines 212 and 213: the loop over the rows around the loop over the columns, both
  starting at 0 and stepping by the stride, around a body that is given \<open>x\<close> and \<open>y\<close>.
\<close>

definition pixelLoops :: "nat \<Rightarrow> nat \<Rightarrow> nat \<Rightarrow> (nat \<Rightarrow> nat \<Rightarrow> 's \<Rightarrow> 's) \<Rightarrow> 's \<Rightarrow> 's option" where
  "pixelLoops stride width height body st =
     forLoop 0 height stride (\<lambda>y. forLoop 0 width stride (\<lambda>x s. Some (body x y s))) st"

text \<open>The body of the loop over the slices, lines 194 to 238, with the stride of the two
  pixel loops as a parameter (the source fixes it to \<open>samplingFactor\<close>).\<close>

definition sampleSlice ::
  "nat \<Rightarrow> (nat \<Rightarrow> rat) \<Rightarrow> slice list \<Rightarrow> nat \<Rightarrow> buffers \<Rightarrow> buffers option" where
  "sampleSlice stride random slices i st =
     (let img = image' (slices ! i);
          width = columns img;
          height = rows img;
          centerX = of_nat width / 2;
          centerY = of_nat height / 2;
          z = of_nat i * sliceHeight - totalHeight slices / 2
      in pixelLoops stride width height
           (samplePixel random (pixelData img) width centerX centerY z) st)"

text \<open>Lines 186 to 239: the two arrays start empty and every slice is sampled in stack
  order.\<close>

definition sampleVolume :: "nat \<Rightarrow> (nat \<Rightarrow> rat) \<Rightarrow> slice list \<Rightarrow> buffers option" where
  "sampleVolume stride random slices =
     forLoop 0 (length slices) 1 (sampleSlice stride random slices)
       \<lparr>vertices = [], colors = [], randomCalls = 0\<rparr>"

text \<open>Lines 180 to 182: \<open>while (children.length > 2) remove(children[2])\<close>.\<close>

function clearPreviousVolume :: "object3d list \<Rightarrow> object3d list" where
  "clearPreviousVolume cs =
     (if length cs > 2 then clearPreviousVolume (take 2 cs @ drop 3 cs) else cs)"
  by pat_completeness auto
termination
  by (relation "measure length") auto

declare clearPreviousVolume.simps [simp del]

definition pointCloudOf :: "buffers \<Rightarrow> object3d" where
  "pointCloudOf b =
     Points \<lparr>positionAttr = vertices b, colorAttr = colors b\<rparr>
            \<lparr>pointSize = 3 / 2, vertexColors = True, transparent = True, opacity = 7 / 10\<rparr>
            (0, 0, 0)"

text \<open>
  \<open>createVolumeFromSlices\<close> with the stride as a parameter. The function has no
  \<open>throw\<close>: a null scene or an empty \<open>slices\<close> makes it return at once, leaving the
  viewer as it was.
\<close>

definition createVolumeWith ::
  "nat \<Rightarrow> (nat \<Rightarrow> rat) \<Rightarrow> slice list \<Rightarrow> three option \<Rightarrow> (error + three option) option" where
  "createVolumeWith stride random slices viewer =
     (case viewer of
        None \<Rightarrow> Some (Inr viewer)
      | Some t \<Rightarrow>
          if length slices = 0 then Some (Inr viewer)
          else (case sampleVolume stride random slices of
                  None \<Rightarrow> None
                | Some b \<Rightarrow>
                    (let maxDimension =
                           max (max (of_nat (columns (image' (slices ! 0))))
                                    (of_nat (rows (image' (slices ! 0)))))
                               (totalHeight slices)
                     in Some (Inr (Some \<lparr>children = clearPreviousVolume (children t) @ [pointCloudOf b],
                                          cameraPositionZ = maxDimension * (3 / 2)\<rparr>)))))"

definition createVolumeFromSlices ::
  "(nat \<Rightarrow> rat) \<Rightarrow> slice list \<Rightarrow> three option \<Rightarrow> (error + three option) option" where
  "createVolumeFromSlices = createVolumeWith samplingFactor"

text \<open>
  The 3D effect of DicomViewer1.js, lines 97 to 146, with the viewer in 3D mode and its
  container mounted: the scene is created once, with the two lights as its first two
  children and the camera at \<open>z = 200\<close>, and the volume is then built from the slices.
\<close>

definition ambientLight :: object3d where
  "ambientLight = AmbientLight 0xffffff (1 / 2)"

definition directionalLight :: object3d where
  "directionalLight = DirectionalLight 0xffffff (4 / 5) (0, 1, 1)"

definition newScene :: three where
  "newScene = \<lparr>children = [ambientLight, directionalLight], cameraPositionZ = 200\<rparr>"

definition show3d ::
  "(nat \<Rightarrow> rat) \<Rightarrow> slice list \<Rightarrow> three option \<Rightarrow> (error + three option) option" where
  "show3d random slices viewer =
     (if length slices > 0 then
        createVolumeFromSlices random slices
          (case viewer of None \<Rightarrow> Some newScene | Some t \<Rightarrow> Some t)
      else Some (Inr viewer))"

section \<open>The upload handler (DicomViewer1.js, handleFileUpload)\<close>

text \<open>
  The state the handler writes. An uploaded file is the image cornerstone decodes from
  it, or \<open>None\<close> when \<open>loadImage\<close> rejects; then \<open>Promise.all\<close> rejects and the
  \<open>catch\<close> branch only clears \<open>loading\<close>.
\<close>

record app =
  slices :: "slice list"
  currentSliceIndex :: nat
  loading :: bool

text \<open>Lines 47 to 54: the instance number is the parsed tag, or the arrival index when
  the image has none.\<close>

definition loadSlice :: "nat \<Rightarrow> dicomImage \<Rightarrow> slice" where
  "loadSlice k img =
     \<lparr>index = k, image' = img,
      instanceNumber = (case instanceTag img of Some n \<Rightarrow> n | None \<Rightarrow> int k)\<rparr>"

text \<open>
  Line 59 sorts with the comparator \<open>a.instanceNumber - b.instanceNumber\<close>.
  \<open>Array.prototype.sort\<close> is stable, and the stable sort of a list by an integer key is
  unique, so it is \<open>sort_key\<close>, whatever algorithm the engine runs.
\<close>

definition handleFileUpload :: "dicomImage option list \<Rightarrow> app \<Rightarrow> app" where
  "handleFileUpload uploadedFiles st =
     (if length uploadedFiles = 0 then st
      else (case those uploadedFiles of
              None \<Rightarrow> st\<lparr>loading := False\<rparr>
            | Some images \<Rightarrow>
                (let loadedSlices = map (\<lambda>(k, img). loadSlice k img) (enumerate 0 images);
                     sortedSlices = sort_key instanceNumber loadedSlices
                 in st\<lparr>slices := sortedSlices,
                        currentSliceIndex := length sortedSlices div 2,
                        loading := False\<rparr>)))"

section \<open>The scene update of ThreeDViewer (second source file, lines 74 to 129)\<close>




definition flatten :: "(rat \<times> rat \<times> rat) list \<Rightarrow> rat list" where
  "flatten ps = concat (map (\<lambda>(a, b, c). [a, b, c]) ps)"


section \<open>Vocabulary of the properties\<close>

text \<open>A buffer attribute of item size 3 reads its array three numbers at a time.\<close>

fun triples :: "'a list \<Rightarrow> ('a \<times> 'a \<times> 'a) list" where
  "triples (a # b # c # xs) = (a, b, c) # triples xs"
| "triples _ = []"

text \<open>
  A sample is a slice position \<open>i\<close> and pixel coordinates \<open>x, y\<close>. For a sample:
  the value the sampler reads (line 215), the position it pushes (line 235, with the
  centre and \<open>z\<close> of lines 203 to 207) and the colour of its class (lines 222 to 231).
\<close>

definition pixelAt :: "slice list \<Rightarrow> nat \<times> nat \<times> nat \<Rightarrow> int option" where
  "pixelAt stack s =
     (case s of (i, x, y) \<Rightarrow>
        typedArrayGet (pixelData (image' (stack ! i)))
          (pixelIndex y (columns (image' (stack ! i))) x))"

definition positionOf :: "slice list \<Rightarrow> nat \<times> nat \<times> nat \<Rightarrow> rat \<times> rat \<times> rat" where
  "positionOf stack s =
     (case s of (i, x, y) \<Rightarrow>
        (of_nat x - of_nat (columns (image' (stack ! i))) / 2,
         - (of_nat y - of_nat (rows (image' (stack ! i))) / 2),
         of_nat i * 1 - (of_nat (length stack) * 1) / 2))"

definition classColor :: "int option \<Rightarrow> rat \<times> rat \<times> rat" where
  "classColor v =
     (if jsLess v (- 100) then hd (triples (colorRGB blue))
      else if jsLess v 200 then hd (triples (colorRGB red))
      else hd (triples (colorRGB yellow)))"

text \<open>The samples the loops visit: inside the slice, on the stride's grid.\<close>

definition onGrid :: "nat \<Rightarrow> slice list \<Rightarrow> nat \<times> nat \<times> nat \<Rightarrow> bool" where
  "onGrid stride stack s =
     (case s of (i, x, y) \<Rightarrow>
        i < length stack \<and> x < columns (image' (stack ! i)) \<and> y < rows (image' (stack ! i))
        \<and> x mod stride = 0 \<and> y mod stride = 0)"

text \<open>A slice is well formed when its pixel array has one entry per pixel.\<close>

definition wellFormed :: "slice \<Rightarrow> bool" where
  "wellFormed s = (length (pixelData (image' s)) = columns (image' s) * rows (image' s))"

text \<open>The pixel loops of \<open>sampleSlice\<close> around a body that records the index it
  computes and nothing else.\<close>

definition visitedIndices :: "nat \<Rightarrow> dicomImage \<Rightarrow> nat list option" where
  "visitedIndices stride img =
     pixelLoops stride (columns img) (rows img)
       (\<lambda>x y log. log @ [pixelIndex y (columns img) x]) []"

text \<open>The number of points a scene object draws.\<close>

fun pointCount :: "object3d \<Rightarrow> nat" where
  "pointCount (Points g m p) = length (triples (positionAttr g))"
| "pointCount _ = 0"


text \<open>
  \<open>pushed stride stack ps st st'\<close>: from \<open>st\<close> to \<open>st'\<close> the two arrays grew by
  exactly the positions and colours of the samples \<open>ps\<close>, in this order, and each of
  these samples is on the grid and was not skipped as air.
\<close>

definition pushed ::
  "nat \<Rightarrow> slice list \<Rightarrow> (nat \<times> nat \<times> nat) list \<Rightarrow> buffers \<Rightarrow> buffers \<Rightarrow> bool" where
  "pushed stride stack ps st st' =
     (vertices st' = vertices st @ flatten (map (positionOf stack) ps)
      \<and> colors st' = colors st @ flatten (map (\<lambda>s. classColor (pixelAt stack s)) ps)
      \<and> list_all (\<lambda>s. onGrid stride stack s \<and> \<not> jsLess (pixelAt stack s) (- 800)) ps)"

definition emptyBuffers :: buffers where
  "emptyBuffers = \<lparr>vertices = [], colors = [], randomCalls = 0\<rparr>"


section \<open>Scenarios\<close>

definition alwaysKeep :: "nat \<Rightarrow> rat" where
  "alwaysKeep k = 0"

definition uniformSlice :: "nat \<Rightarrow> nat \<Rightarrow> nat \<Rightarrow> int \<Rightarrow> slice" where
  "uniformSlice k w h v =
     \<lparr>index = k,
      image' = \<lparr>columns = w, rows = h, pixelData = replicate (w * h) v, instanceTag = None\<rparr>,
      instanceNumber = int k\<rparr>"

text \<open>Two 4 by 4 slices: all \<open>-1000\<close>, then all \<open>500\<close>.\<close>

definition airBoneStack :: "slice list" where
  "airBoneStack = [uniformSlice 0 4 4 (- 1000), uniformSlice 1 4 4 500]"

text \<open>The sixteen pixels of slice 1 of a 4 by 4 stack, row by row.\<close>

definition grid4 :: "(nat \<times> nat \<times> nat) list" where
  "grid4 = [(1,0,0),(1,1,0),(1,2,0),(1,3,0),(1,0,1),(1,1,1),(1,2,1),(1,3,1),
            (1,0,2),(1,1,2),(1,2,2),(1,3,2),(1,0,3),(1,1,3),(1,2,3),(1,3,3)]"

text \<open>Two slices of value 500 that disagree on the width: 4 by 4, then 8 by 4.\<close>

definition mixedStack :: "slice list" where
  "mixedStack = [uniformSlice 0 4 4 500, uniformSlice 1 8 4 500]"

text \<open>An 8 by 8 image whose pixel \<open>k\<close> has value \<open>k\<close>.\<close>

definition gradient8 :: dicomImage where
  "gradient8 = \<lparr>columns = 8, rows = 8, pixelData = map int [0..<64], instanceTag = None\<rparr>"








section \<open>Loops\<close>

text \<open>A loop with a positive step returns, and keeps what every round of its body keeps.\<close>

lemma forLoop_total:
  assumes "0 < step" and "Q st"
    and "\<And>u s. u < bound \<Longrightarrow> u mod step = v mod step \<Longrightarrow> Q s \<Longrightarrow> \<exists>s'. body u s = Some s' \<and> Q s'"
  shows "\<exists>st'. forLoop v bound step body st = Some st' \<and> Q st'"
  using assms
proof (induction v bound step body st rule: forLoop.induct)
  case (1 v bound step body st)
  show ?case
  proof (cases "v < bound")
    case False
    then show ?thesis using "1.prems"(2) by (subst forLoop.simps) simp
  next
    case True
    from "1.prems"(3)[OF True refl "1.prems"(2)]
    obtain s' where b: "body v st = Some s'" and q: "Q s'" by blast
    have "\<exists>st'. forLoop (v + step) bound step body s' = Some st' \<and> Q st'"
    proof (rule "1.IH"[OF True _ b "1.prems"(1) q])
      show "step \<noteq> 0" using "1.prems"(1) by simp
    next
      fix u s assume "u < bound" "u mod step = (v + step) mod step" "Q s"
      then show "\<exists>s'. body u s = Some s' \<and> Q s'"
        using "1.prems"(3)[of u s] by simp
    qed
    then show ?thesis using True b "1.prems"(1)
      by (subst forLoop.simps) simp
  qed
qed

text \<open>Unfolding a loop one round at a time, for runs on given numbers.\<close>

lemma forLoop_step:
  "v < bound \<Longrightarrow> 0 < step \<Longrightarrow>
     forLoop v bound step body st =
       (case body v st of None \<Rightarrow> None | Some st' \<Rightarrow> forLoop (v + step) bound step body st')"
  by (subst forLoop.simps) simp

lemma forLoop_done: "\<not> v < bound \<Longrightarrow> forLoop v bound step body st = Some st"
  by (subst forLoop.simps) simp

lemma pixelLoops_total:
  assumes "0 < stride" and "Q st"
    and "\<And>x y s. x < width \<Longrightarrow> y < height \<Longrightarrow> x mod stride = 0 \<Longrightarrow> y mod stride = 0 \<Longrightarrow> Q s
           \<Longrightarrow> Q (body x y s)"
  shows "\<exists>st'. pixelLoops stride width height body st = Some st' \<and> Q st'"
  unfolding pixelLoops_def
proof (rule forLoop_total[where Q = Q and step = stride and st = st, OF assms(1) assms(2)])
  fix y s assume y: "y < height" "y mod stride = 0 mod stride" and q: "Q s"
  show "\<exists>s'. forLoop 0 width stride (\<lambda>x s. Some (body x y s)) s = Some s' \<and> Q s'"
  proof (rule forLoop_total[where Q = Q and step = stride and st = s, OF assms(1) q])
    fix x s' assume "x < width" "x mod stride = 0 mod stride" "Q s'"
    then show "\<exists>s''. Some (body x y s') = Some s'' \<and> Q s''"
      using assms(3)[of x y s'] y by simp
  qed
qed

lemma flatten_append: "flatten (ps @ qs) = flatten ps @ flatten qs"
  by (simp add: flatten_def)

lemma flatten_Nil: "flatten [] = []"
  by (simp add: flatten_def)

lemma flatten_single: "flatten [(a, b, c)] = [a, b, c]"
  by (simp add: flatten_def)

lemma length_flatten: "length (flatten ps) = 3 * length ps"
  by (induction ps) (auto simp: flatten_def)

lemma triples_flatten: "triples (flatten ps) = ps"
  by (induction ps) (auto simp: flatten_def)

lemma flatten_classColor: "flatten [classColor v] =
   (if jsLess v (- 100) then colorRGB blue else if jsLess v 200 then colorRGB red else colorRGB yellow)"
  by (simp add: classColor_def colorRGB_def flatten_def)

text \<open>What one pixel does to the arrays: nothing, or one position and the colour of the class.\<close>

lemma samplePixel_effect:
  "(vertices (samplePixel random pixels width cx cy z x y st) = vertices st
      \<and> colors (samplePixel random pixels width cx cy z x y st) = colors st)
   \<or> (\<not> jsLess (typedArrayGet pixels (pixelIndex y width x)) (- 800)
      \<and> vertices (samplePixel random pixels width cx cy z x y st)
          = vertices st @ flatten [(of_nat x - cx, - (of_nat y - cy), z)]
      \<and> colors (samplePixel random pixels width cx cy z x y st)
          = colors st @ flatten [classColor (typedArrayGet pixels (pixelIndex y width x))])"
  unfolding flatten_classColor flatten_single
  by (simp add: samplePixel_def Let_def)


lemma pushed_Nil: "pushed stride stack [] st st"
  by (simp add: pushed_def flatten_def)

lemma pushed_same:
  "pushed stride stack ps st s \<Longrightarrow> vertices s' = vertices s \<Longrightarrow> colors s' = colors s
     \<Longrightarrow> pushed stride stack ps st s'"
  by (simp add: pushed_def)

lemma pushed_snoc:
  assumes "pushed stride stack ps st s"
    and "vertices s' = vertices s @ flatten [positionOf stack p]"
    and "colors s' = colors s @ flatten [classColor (pixelAt stack p)]"
    and "onGrid stride stack p" and "\<not> jsLess (pixelAt stack p) (- 800)"
  shows "pushed stride stack (ps @ [p]) st s'"
  using assms by (simp add: pushed_def flatten_append)

lemma pushed_trans:
  "pushed stride stack ps st s \<Longrightarrow> pushed stride stack qs s s'
     \<Longrightarrow> pushed stride stack (ps @ qs) st s'"
  by (simp add: pushed_def flatten_append)

lemma sampleSlice_pushed:
  assumes stride: "0 < stride" and i: "i < length stack"
  shows "\<exists>st' ps. sampleSlice stride random stack i st = Some st'
           \<and> pushed stride stack ps st st' \<and> list_all (\<lambda>s. fst s = i) ps"
proof -
  define img where "img = image' (stack ! i)"
  define cx :: rat where "cx = of_nat (columns img) / 2"
  define cy :: rat where "cy = of_nat (rows img) / 2"
  define z :: rat where "z = of_nat i * sliceHeight - totalHeight stack / 2"
  define Q where "Q s = (\<exists>ps. pushed stride stack ps st s \<and> list_all (\<lambda>s. fst s = i) ps)" for s
  have pos: "positionOf stack (i, x, y) = (of_nat x - cx, - (of_nat y - cy), z)" for x y
    by (simp add: positionOf_def cx_def cy_def z_def img_def sliceHeight_def totalHeight_def)
  have pix: "pixelAt stack (i, x, y) = typedArrayGet (pixelData img) (pixelIndex y (columns img) x)" for x y
    by (simp add: pixelAt_def img_def)
  have step: "Q (samplePixel random (pixelData img) (columns img) cx cy z x y s)"
    if "x < columns img" "y < rows img" "x mod stride = 0" "y mod stride = 0" "Q s" for x y s
  proof -
    from that(5) obtain ps where ps: "pushed stride stack ps st s" "list_all (\<lambda>s. fst s = i) ps"
      unfolding Q_def by blast
    have grid: "onGrid stride stack (i, x, y)"
      using that(1-4) i by (simp add: onGrid_def img_def)
    let ?s' = "samplePixel random (pixelData img) (columns img) cx cy z x y s"
    from samplePixel_effect[of random "pixelData img" "columns img" cx cy z x y s]
    show ?thesis
    proof
      assume "vertices ?s' = vertices s \<and> colors ?s' = colors s"
      then have "pushed stride stack ps st ?s'" using ps(1) pushed_same by blast
      then show ?thesis unfolding Q_def using ps(2) by blast
    next
      assume a: "\<not> jsLess (typedArrayGet (pixelData img) (pixelIndex y (columns img) x)) (- 800)
        \<and> vertices ?s' = vertices s @ flatten [(of_nat x - cx, - (of_nat y - cy), z)]
        \<and> colors ?s' = colors s @ flatten [classColor (typedArrayGet (pixelData img) (pixelIndex y (columns img) x))]"
      have "pushed stride stack (ps @ [(i, x, y)]) st ?s'"
        by (rule pushed_snoc[OF ps(1)]) (use a grid in \<open>simp_all add: pos pix\<close>)
      moreover have "list_all (\<lambda>s. fst s = i) (ps @ [(i, x, y)])" using ps(2) by simp
      ultimately show ?thesis unfolding Q_def by blast
    qed
  qed
  have q0: "Q st" unfolding Q_def using pushed_Nil[of stride stack st] by (intro exI[of _ "[]"]) simp
  have "\<exists>st'. pixelLoops stride (columns img) (rows img)
           (samplePixel random (pixelData img) (columns img) cx cy z) st = Some st' \<and> Q st'"
  proof (rule pixelLoops_total[where Q = Q and width = "columns img" and height = "rows img"
          and body = "samplePixel random (pixelData img) (columns img) cx cy z", OF stride q0])
    fix x y s
    assume "x < columns img" "y < rows img" "x mod stride = 0" "y mod stride = 0" "Q s"
    then show "Q (samplePixel random (pixelData img) (columns img) cx cy z x y s)"
      by (rule step)
  qed
  then show ?thesis
    unfolding Q_def sampleSlice_def Let_def img_def cx_def cy_def z_def by blast
qed


lemma sampleVolume_pushed:
  assumes stride: "0 < stride"
  shows "\<exists>b ps. sampleVolume stride random stack = Some b \<and> pushed stride stack ps emptyBuffers b"
proof -
  define Q where "Q s = (\<exists>ps. pushed stride stack ps emptyBuffers s)" for s
  have q0: "Q emptyBuffers" unfolding Q_def using pushed_Nil by blast
  have "\<exists>b. forLoop 0 (length stack) 1 (sampleSlice stride random stack) emptyBuffers = Some b \<and> Q b"
  proof (rule forLoop_total[where Q = Q and step = 1 and st = emptyBuffers, OF _ q0])
    show "0 < (1::nat)" by simp
  next
    fix i s assume i: "i < length stack" and "Q s"
    then obtain ps where ps: "pushed stride stack ps emptyBuffers s" unfolding Q_def by blast
    from sampleSlice_pushed[OF stride i, of random s]
    obtain s' qs where s': "sampleSlice stride random stack i s = Some s'"
      and qs: "pushed stride stack qs s s'" by blast
    from pushed_trans[OF ps qs] have "Q s'" unfolding Q_def by blast
    with s' show "\<exists>s'. sampleSlice stride random stack i s = Some s' \<and> Q s'" by blast
  qed
  then show ?thesis unfolding Q_def sampleVolume_def emptyBuffers_def by blast
qed

lemma pixelIndex_less:
  assumes "x < width" and "y < height"
  shows "pixelIndex y width x < width * height"
proof -
  have "y * width + x < y * width + width" using assms(1) by simp
  also have "\<dots> = Suc y * width" by simp
  also have "\<dots> \<le> height * width" using assms(2) by (intro mult_le_mono1) simp
  finally show ?thesis by (simp add: pixelIndex_def mult.commute)
qed

lemma visitedIndices_in_bounds:
  assumes stride: "0 < stride"
  shows "\<exists>idx. visitedIndices stride img = Some idx
           \<and> list_all (\<lambda>k. k < columns img * rows img) idx"
  unfolding visitedIndices_def
proof (rule pixelLoops_total[where Q = "list_all (\<lambda>k. k < columns img * rows img)"
        and width = "columns img" and height = "rows img"
        and body = "\<lambda>x y log. log @ [pixelIndex y (columns img) x]", OF stride])
  show "list_all (\<lambda>k. k < columns img * rows img) []" by simp
next
  fix x y and s :: "nat list"
  assume "x < columns img" "y < rows img" "list_all (\<lambda>k. k < columns img * rows img) s"
  then show "list_all (\<lambda>k. k < columns img * rows img) (s @ [pixelIndex y (columns img) x])"
    using pixelIndex_less[of x "columns img" y "rows img"] by simp
qed

lemma onGrid_defined:
  assumes "onGrid stride stack (i, x, y)" and "wellFormed (stack ! i)"
  shows "pixelAt stack (i, x, y)
           = Some (pixelData (image' (stack ! i)) ! pixelIndex y (columns (image' (stack ! i))) x)"
  using assms pixelIndex_less[of x "columns (image' (stack ! i))" y "rows (image' (stack ! i))"]
  by (simp add: onGrid_def wellFormed_def pixelAt_def typedArrayGet_def)

lemma clearPreviousVolume_take: "clearPreviousVolume cs = take 2 cs"
proof (induction cs rule: clearPreviousVolume.induct)
  case (1 cs)
  show ?case
  proof (cases "length cs > 2")
    case True
    then have "clearPreviousVolume cs = take 2 (take 2 cs @ drop 3 cs)"
      using 1 by (subst clearPreviousVolume.simps) simp
    also have "\<dots> = take 2 cs" using True by simp
    finally show ?thesis .
  next
    case False
    then show ?thesis by (subst clearPreviousVolume.simps) simp
  qed
qed


section \<open>The sampler: which pixels reach the point cloud\<close>

text \<open>
  Claim C2. For every stack, every positive stride and every outcome of \<open>Math.random\<close>,
  the sampling loops return, and the points they have pushed are, in order, the
  positions of samples \<open>ps\<close> that lie on the stride's grid inside their slice and whose
  pixel is not below the air cutoff \<open>-800\<close>; where the slice has one array entry per
  pixel, the pixel has a value and this value is at least \<open>-800\<close>. The stride of the
  source, \<open>samplingFactor = 4\<close>, is one of these strides.
\<close>

theorem air_never_sampled:
  assumes "0 < stride"
  shows "\<exists>b ps. sampleVolume stride random stack = Some b
           \<and> triples (vertices b) = map (positionOf stack) ps
           \<and> list_all (\<lambda>s. onGrid stride stack s
                             \<and> \<not> jsLess (pixelAt stack s) (- 800)
                             \<and> (wellFormed (stack ! fst s)
                                  \<longrightarrow> (\<exists>v. pixelAt stack s = Some v \<and> - 800 \<le> v))) ps"
proof -
  from sampleVolume_pushed[OF assms, of random stack]
  obtain b ps where b: "sampleVolume stride random stack = Some b"
    and p: "pushed stride stack ps emptyBuffers b" by blast
  have v: "triples (vertices b) = map (positionOf stack) ps"
    using p by (simp add: pushed_def emptyBuffers_def triples_flatten)
  have "onGrid stride stack s \<and> \<not> jsLess (pixelAt stack s) (- 800)
          \<and> (wellFormed (stack ! fst s) \<longrightarrow> (\<exists>v. pixelAt stack s = Some v \<and> - 800 \<le> v))"
    if "s \<in> set ps" for s
  proof -
    obtain i x y where s: "s = (i, x, y)" by (cases s)
    from that p have g: "onGrid stride stack s" and a: "\<not> jsLess (pixelAt stack s) (- 800)"
      by (auto simp: pushed_def list_all_iff)
    have "\<exists>v. pixelAt stack s = Some v \<and> - 800 \<le> v" if "wellFormed (stack ! fst s)"
      using onGrid_defined[of stride stack i x y] g a that s by (auto simp: jsLess_def)
    with g a show ?thesis by blast
  qed
  then have "list_all (\<lambda>s. onGrid stride stack s
                             \<and> \<not> jsLess (pixelAt stack s) (- 800)
                             \<and> (wellFormed (stack ! fst s)
                                  \<longrightarrow> (\<exists>v. pixelAt stack s = Some v \<and> - 800 \<le> v))) ps"
    by (simp add: list_all_iff)
  with b v show ?thesis by blast
qed

theorem air_never_sampled_witness:
  "0 < samplingFactor
   \<and> (\<exists>b ps. sampleVolume samplingFactor alwaysKeep airBoneStack = Some b
           \<and> triples (vertices b) = map (positionOf airBoneStack) ps
           \<and> list_all (\<lambda>s. onGrid samplingFactor airBoneStack s
                             \<and> \<not> jsLess (pixelAt airBoneStack s) (- 800)
                             \<and> (wellFormed (airBoneStack ! fst s)
                                  \<longrightarrow> (\<exists>v. pixelAt airBoneStack s = Some v \<and> - 800 \<le> v))) ps)"
proof -
  have h: "0 < samplingFactor" by (simp add: samplingFactor_def)
  from air_never_sampled[OF h, of alwaysKeep airBoneStack] h show ?thesis by blast
qed

text \<open>
  Claim C10. For an image whose pixel array has exactly \<open>columns * rows\<close> entries and a
  positive stride, the two pixel loops return, and every index \<open>y * width + x\<close> their
  body computes is inside the pixel array, so the read at this index is defined.
\<close>

theorem sampler_reads_in_bounds:
  assumes "0 < stride"
    and "length (pixelData img) = columns img * rows img"
  shows "\<exists>idx. visitedIndices stride img = Some idx
           \<and> list_all (\<lambda>k. k < length (pixelData img)
                             \<and> typedArrayGet (pixelData img) k = Some (pixelData img ! k)) idx"
proof -
  from visitedIndices_in_bounds[OF assms(1), of img]
  obtain idx where idx: "visitedIndices stride img = Some idx"
    and b: "list_all (\<lambda>k. k < columns img * rows img) idx" by blast
  have "list_all (\<lambda>k. k < length (pixelData img)
                       \<and> typedArrayGet (pixelData img) k = Some (pixelData img ! k)) idx"
    using b assms(2) by (simp add: list_all_iff typedArrayGet_def)
  with idx show ?thesis by blast
qed

theorem sampler_reads_in_bounds_witness:
  "0 < samplingFactor
   \<and> length (pixelData gradient8) = columns gradient8 * rows gradient8
   \<and> visitedIndices samplingFactor gradient8 = Some [0, 4, 32, 36]
   \<and> (\<exists>idx. visitedIndices samplingFactor gradient8 = Some idx
           \<and> list_all (\<lambda>k. k < length (pixelData gradient8)
                \<and> typedArrayGet (pixelData gradient8) k = Some (pixelData gradient8 ! k)) idx)"
proof -
  have h1: "0 < samplingFactor" by (simp add: samplingFactor_def)
  have h2: "length (pixelData gradient8) = columns gradient8 * rows gradient8"
    by (simp add: gradient8_def)
  have h3: "visitedIndices samplingFactor gradient8 = Some [0, 4, 32, 36]"
    by code_simp
  from sampler_reads_in_bounds[OF h1 h2] h1 h2 h3 show ?thesis by blast
qed

section \<open>Runs on given stacks\<close>

lemmas eval_defs = sampleVolume_def sampleSlice_def pixelLoops_def forLoop_step forLoop_done
  uniformSlice_def samplePixel_def typedArrayGet_def pixelIndex_def jsLess_def
  sliceHeight_def totalHeight_def Let_def emptyBuffers_def alwaysKeep_def samplingFactor_def

lemma airBone_stride1:
  "sampleVolume 1 alwaysKeep airBoneStack = Some
     \<lparr>vertices = flatten (map (positionOf airBoneStack) grid4),
      colors = flatten (map (\<lambda>s. classColor (pixelAt airBoneStack s)) grid4),
      randomCalls = 0\<rparr>"
  by (simp add: eval_defs airBoneStack_def flatten_def positionOf_def classColor_def pixelAt_def
        colorRGB_def grid4_def)

lemma airBone_stride4:
  "sampleVolume samplingFactor alwaysKeep airBoneStack =
     Some \<lparr>vertices = [- 2, 2, 0], colors = colorRGB yellow, randomCalls = 0\<rparr>"
  by (simp add: eval_defs airBoneStack_def)

lemma airBone_create:
  "createVolumeFromSlices alwaysKeep airBoneStack (Some newScene) =
     Some (Inr (Some \<lparr>children = [ambientLight, directionalLight,
         Points \<lparr>positionAttr = [- 2, 2, 0], colorAttr = colorRGB yellow\<rparr>
                \<lparr>pointSize = 3 / 2, vertexColors = True, transparent = True, opacity = 7 / 10\<rparr>
                (0, 0, 0)],
       cameraPositionZ = 6\<rparr>))"
  unfolding createVolumeFromSlices_def createVolumeWith_def airBone_stride4
  by (simp add: clearPreviousVolume_take newScene_def pointCloudOf_def airBoneStack_def
        uniformSlice_def totalHeight_def sliceHeight_def)

text \<open>
  Claim C1, as amended. The scenario is the stack of two 4 by 4 slices, slice 0 all
  \<open>-1000\<close> and slice 1 all \<open>500\<close>, with a retention draw that always keeps.
  Run with stride 1, the sampling loops push exactly 16 points: the 16 pixels of slice 1
  in row order, none of slice 0 (sampling slice 0 alone leaves the arrays empty), every
  colour the Bone colour \<open>0xf1c40f\<close>, every \<open>z\<close> equal to 0, while slice 0 has
  \<open>z = -1\<close>. \<open>createVolumeFromSlices\<close> itself has no stride parameter: its
  stride is the constant 4, it examines pixel \<open>(0, 0)\<close> of each slice only, and on
  this stack it adds a cloud of exactly one point, \<open>(-2, 2, 0)\<close>, in the Bone colour.
\<close>

theorem air_bone_scenario:
  "(\<exists>b. sampleVolume 1 alwaysKeep airBoneStack = Some b
      \<and> triples (vertices b) = map (positionOf airBoneStack) grid4
      \<and> list_all (\<lambda>s. fst s = 1) grid4
      \<and> length (triples (vertices b)) = 16
      \<and> length (triples (colors b)) = 16
      \<and> list_all (\<lambda>c. c = hd (triples (colorRGB yellow))) (triples (colors b))
      \<and> list_all (\<lambda>p. snd (snd p) = 0) (triples (vertices b)))
   \<and> sampleSlice 1 alwaysKeep airBoneStack 0 emptyBuffers = Some emptyBuffers
   \<and> of_nat 0 * sliceHeight - totalHeight airBoneStack / 2 = - 1
   \<and> createVolumeFromSlices alwaysKeep airBoneStack (Some newScene) =
       Some (Inr (Some \<lparr>children = [ambientLight, directionalLight,
           Points \<lparr>positionAttr = [- 2, 2, 0], colorAttr = colorRGB yellow\<rparr>
                  \<lparr>pointSize = 3 / 2, vertexColors = True, transparent = True, opacity = 7 / 10\<rparr>
                  (0, 0, 0)],
         cameraPositionZ = 6\<rparr>))"
proof -
  let ?b = "\<lparr>vertices = flatten (map (positionOf airBoneStack) grid4),
             colors = flatten (map (\<lambda>s. classColor (pixelAt airBoneStack s)) grid4),
             randomCalls = 0\<rparr>"
  have v: "triples (vertices ?b) = map (positionOf airBoneStack) grid4"
    by (simp add: triples_flatten)
  have c: "triples (colors ?b) = map (\<lambda>s. classColor (pixelAt airBoneStack s)) grid4"
    by (simp add: triples_flatten)
  have 1: "list_all (\<lambda>s. fst s = 1) grid4" by (simp add: grid4_def)
  have 2: "length (triples (vertices ?b)) = 16" unfolding v by (simp add: grid4_def)
  have 3: "length (triples (colors ?b)) = 16" unfolding c by (simp add: grid4_def)
  have 4: "list_all (\<lambda>c. c = hd (triples (colorRGB yellow))) (triples (colors ?b))"
    unfolding c
    by (simp add: grid4_def classColor_def pixelAt_def airBoneStack_def uniformSlice_def
          typedArrayGet_def pixelIndex_def jsLess_def)
  have 5: "list_all (\<lambda>p. snd (snd p) = 0) (triples (vertices ?b))"
    unfolding v by (simp add: grid4_def positionOf_def airBoneStack_def)
  have first: "\<exists>b. sampleVolume 1 alwaysKeep airBoneStack = Some b
      \<and> triples (vertices b) = map (positionOf airBoneStack) grid4
      \<and> list_all (\<lambda>s. fst s = 1) grid4
      \<and> length (triples (vertices b)) = 16
      \<and> length (triples (colors b)) = 16
      \<and> list_all (\<lambda>c. c = hd (triples (colorRGB yellow))) (triples (colors b))
      \<and> list_all (\<lambda>p. snd (snd p) = 0) (triples (vertices b))"
    using airBone_stride1 v 1 2 3 4 5 by blast
  have slice0: "sampleSlice 1 alwaysKeep airBoneStack 0 emptyBuffers = Some emptyBuffers"
    by (simp add: eval_defs airBoneStack_def)
  have z0: "of_nat 0 * sliceHeight - totalHeight airBoneStack / 2 = - 1"
    by (simp add: sliceHeight_def totalHeight_def airBoneStack_def)
  from first slice0 z0 airBone_create show ?thesis by blast
qed

text \<open>On this stack \<open>createVolumeFromSlices\<close> does not produce 16 points.\<close>

theorem air_bone_sixteen_counterexample:
  "\<not> (\<exists>t. createVolumeFromSlices alwaysKeep airBoneStack (Some newScene) = Some (Inr (Some t))
          \<and> sum_list (map pointCount (children t)) = 16)"
  unfolding airBone_create
  by (simp add: ambientLight_def directionalLight_def)

section \<open>Structural input errors\<close>

text \<open>
  Claim C3, as amended. On an empty stack the viewer raises no error: both
  \<open>createVolumeFromSlices\<close> and the 3D effect return at once and leave the viewer
  as it was, so no point cloud is built; \<open>handleFileUpload\<close> on an empty selection
  likewise returns with the state unchanged.
\<close>

theorem empty_stack_returns_silently:
  "createVolumeWith stride random [] viewer = Some (Inr viewer)
   \<and> createVolumeFromSlices random [] viewer = Some (Inr viewer)
   \<and> show3d random [] viewer = Some (Inr viewer)
   \<and> handleFileUpload [] st = st"
  by (simp add: createVolumeFromSlices_def createVolumeWith_def show3d_def handleFileUpload_def
        split: option.split)

text \<open>The empty stack does not make \<open>createVolumeFromSlices\<close> fail with
  \<open>EmptyStackError\<close>.\<close>

theorem empty_stack_counterexample:
  "\<not> (createVolumeFromSlices alwaysKeep [] (Some newScene) = Some (Inl EmptyStackError))"
  by (simp add: createVolumeFromSlices_def createVolumeWith_def)

lemma mixed_stride4:
  "sampleVolume samplingFactor alwaysKeep mixedStack =
     Some \<lparr>vertices = [- 2, 2, - 1, - 4, 2, 0, 0, 2, 0],
           colors = colorRGB yellow @ colorRGB yellow @ colorRGB yellow, randomCalls = 0\<rparr>"
  by (simp add: eval_defs mixedStack_def)

text \<open>Two slices of widths 4 and 8 do not make \<open>createVolumeFromSlices\<close> fail with
  \<open>DimensionMismatchError\<close>: it returns a scene whose cloud has three points, one of
  the first slice and two of the second.\<close>

theorem mixed_widths_counterexample:
  "\<not> (createVolumeFromSlices alwaysKeep mixedStack (Some newScene) = Some (Inl DimensionMismatchError))
   \<and> (\<exists>t. createVolumeFromSlices alwaysKeep mixedStack (Some newScene) = Some (Inr (Some t))
          \<and> map pointCount (children t) = [0, 0, 3])"
  unfolding createVolumeFromSlices_def createVolumeWith_def mixed_stride4
  by (simp add: clearPreviousVolume_take newScene_def pointCloudOf_def mixedStack_def
        ambientLight_def directionalLight_def)

section \<open>Every stack, every stride, every draw\<close>

text \<open>The scene a successful call leaves.\<close>

lemma createVolumeWith_result:
  assumes "0 < stride" and "stack \<noteq> []"
  shows "\<exists>b ps. sampleVolume stride random stack = Some b
           \<and> pushed stride stack ps emptyBuffers b
           \<and> createVolumeWith stride random stack (Some t) =
               Some (Inr (Some \<lparr>children = take 2 (children t) @ [pointCloudOf b],
                    cameraPositionZ =
                      max (max (of_nat (columns (image' (stack ! 0))))
                               (of_nat (rows (image' (stack ! 0)))))
                          (totalHeight stack) * (3 / 2)\<rparr>))"
proof -
  from sampleVolume_pushed[OF assms(1), of random stack]
  obtain b ps where b: "sampleVolume stride random stack = Some b"
    and p: "pushed stride stack ps emptyBuffers b" by blast
  have "createVolumeWith stride random stack (Some t) =
               Some (Inr (Some \<lparr>children = take 2 (children t) @ [pointCloudOf b],
                    cameraPositionZ =
                      max (max (of_nat (columns (image' (stack ! 0))))
                               (of_nat (rows (image' (stack ! 0)))))
                          (totalHeight stack) * (3 / 2)\<rparr>))"
    using assms(2) b by (simp add: createVolumeWith_def clearPreviousVolume_take)
  with b p show ?thesis by blast
qed

text \<open>
  Claim C4, as amended. Reconstruction has no dimension check. For every non-empty
  stack, also one whose slices disagree on width or height, it returns normally and
  puts one point cloud behind the first two children of the scene; every point of the
  cloud is the position of an on-grid sample, computed from the columns and rows of the
  sample's own slice.
\<close>

theorem no_dimension_check:
  assumes "0 < stride" and "stack \<noteq> []"
  shows "\<exists>t' b ps. createVolumeWith stride random stack (Some t) = Some (Inr (Some t'))
           \<and> children t' = take 2 (children t) @ [pointCloudOf b]
           \<and> triples (vertices b) = map (positionOf stack) ps
           \<and> list_all (onGrid stride stack) ps"
proof -
  from createVolumeWith_result[OF assms, of random t]
  obtain b ps where p: "pushed stride stack ps emptyBuffers b"
    and c: "createVolumeWith stride random stack (Some t) =
               Some (Inr (Some \<lparr>children = take 2 (children t) @ [pointCloudOf b],
                    cameraPositionZ =
                      max (max (of_nat (columns (image' (stack ! 0))))
                               (of_nat (rows (image' (stack ! 0)))))
                          (totalHeight stack) * (3 / 2)\<rparr>))" by blast
  have v: "triples (vertices b) = map (positionOf stack) ps"
    using p by (simp add: pushed_def emptyBuffers_def triples_flatten)
  have g: "list_all (onGrid stride stack) ps"
    using p by (simp add: pushed_def list_all_iff)
  from c v g show ?thesis by force
qed

theorem no_dimension_check_witness:
  "0 < samplingFactor \<and> mixedStack \<noteq> []
   \<and> columns (image' (mixedStack ! 0)) \<noteq> columns (image' (mixedStack ! 1))
   \<and> (\<exists>t' b ps. createVolumeFromSlices alwaysKeep mixedStack (Some newScene) = Some (Inr (Some t'))
           \<and> children t' = take 2 (children newScene) @ [pointCloudOf b]
           \<and> triples (vertices b) = map (positionOf mixedStack) ps
           \<and> list_all (onGrid samplingFactor mixedStack) ps)"
proof -
  have h1: "0 < samplingFactor" by (simp add: samplingFactor_def)
  have h2: "mixedStack \<noteq> []" by (simp add: mixedStack_def)
  have h3: "columns (image' (mixedStack ! 0)) \<noteq> columns (image' (mixedStack ! 1))"
    by (simp add: mixedStack_def uniformSlice_def)
  from no_dimension_check[OF h1 h2, of alwaysKeep newScene] h1 h2 h3
  show ?thesis unfolding createVolumeFromSlices_def by blast
qed

text \<open>
  Claim C6. With the slice spacing 1, every point pushed while slice \<open>i\<close> of a stack of
  \<open>N\<close> slices is sampled has \<open>z = i * 1 - (N * 1) / 2\<close>, and every \<open>z\<close> of the
  sampled volume lies in the closed interval from \<open>-N/2\<close> to \<open>N/2\<close>.
\<close>

theorem z_centered:
  assumes "0 < stride" and "i < length stack"
  shows "(\<exists>st' new. sampleSlice stride random stack i st = Some st'
            \<and> vertices st' = vertices st @ flatten new
            \<and> list_all (\<lambda>p. snd (snd p) = of_nat i * 1 - (of_nat (length stack) * 1) / 2) new)
       \<and> (\<exists>b pts. sampleVolume stride random stack = Some b
            \<and> vertices b = flatten pts
            \<and> list_all (\<lambda>p. - (of_nat (length stack) / 2) \<le> snd (snd p)
                             \<and> snd (snd p) \<le> of_nat (length stack) / 2) pts)"
proof
  from sampleSlice_pushed[OF assms, of random st]
  obtain st' ps where s: "sampleSlice stride random stack i st = Some st'"
    and p: "pushed stride stack ps st st'" and f: "list_all (\<lambda>s. fst s = i) ps" by blast
  have v: "vertices st' = vertices st @ flatten (map (positionOf stack) ps)"
    using p by (simp add: pushed_def)
  have "snd (snd (positionOf stack s)) = of_nat i * 1 - (of_nat (length stack) * 1) / 2"
    if "s \<in> set ps" for s
  proof -
    obtain j x y where s: "s = (j, x, y)" by (cases s)
    from that f have "fst s = i" by (simp add: list_all_iff)
    then show ?thesis using s by (simp add: positionOf_def)
  qed
  then have "list_all (\<lambda>p. snd (snd p) = of_nat i * 1 - (of_nat (length stack) * 1) / 2)
               (map (positionOf stack) ps)"
    by (simp add: list_all_iff)
  with s v show "\<exists>st' new. sampleSlice stride random stack i st = Some st'
            \<and> vertices st' = vertices st @ flatten new
            \<and> list_all (\<lambda>p. snd (snd p) = of_nat i * 1 - (of_nat (length stack) * 1) / 2) new"
    by blast
next
  from sampleVolume_pushed[OF assms(1), of random stack]
  obtain b ps where b: "sampleVolume stride random stack = Some b"
    and p: "pushed stride stack ps emptyBuffers b" by blast
  have v: "vertices b = flatten (map (positionOf stack) ps)"
    using p by (simp add: pushed_def emptyBuffers_def)
  have "- (of_nat (length stack) / 2) \<le> snd (snd (positionOf stack s))
          \<and> snd (snd (positionOf stack s)) \<le> of_nat (length stack) / 2"
    if "s \<in> set ps" for s
  proof -
    obtain j x y where s: "s = (j, x, y)" by (cases s)
    from that p have "onGrid stride stack s" by (auto simp: pushed_def list_all_iff)
    then have j: "j < length stack" using s by (simp add: onGrid_def)
    have z: "snd (snd (positionOf stack s)) = of_nat j - of_nat (length stack) / 2"
      using s by (simp add: positionOf_def)
    have "(0::rat) \<le> of_nat j" by simp
    moreover have "(of_nat j :: rat) \<le> of_nat (length stack)" using j by simp
    ultimately show ?thesis unfolding z by linarith
  qed
  then have "list_all (\<lambda>p. - (of_nat (length stack) / 2) \<le> snd (snd p)
                             \<and> snd (snd p) \<le> of_nat (length stack) / 2)
               (map (positionOf stack) ps)"
    by (simp add: list_all_iff)
  with b v show "\<exists>b pts. sampleVolume stride random stack = Some b
            \<and> vertices b = flatten pts
            \<and> list_all (\<lambda>p. - (of_nat (length stack) / 2) \<le> snd (snd p)
                             \<and> snd (snd p) \<le> of_nat (length stack) / 2) pts"
    by blast
qed

theorem z_centered_witness:
  "0 < samplingFactor \<and> 1 < length airBoneStack
   \<and> (\<exists>st' new. sampleSlice samplingFactor alwaysKeep airBoneStack 1 emptyBuffers = Some st'
            \<and> vertices st' = vertices emptyBuffers @ flatten new
            \<and> list_all (\<lambda>p. snd (snd p) = of_nat 1 * 1 - (of_nat (length airBoneStack) * 1) / 2) new)
   \<and> (\<exists>b pts. sampleVolume samplingFactor alwaysKeep airBoneStack = Some b
            \<and> vertices b = flatten pts
            \<and> list_all (\<lambda>p. - (of_nat (length airBoneStack) / 2) \<le> snd (snd p)
                             \<and> snd (snd p) \<le> of_nat (length airBoneStack) / 2) pts)"
proof -
  have h1: "0 < samplingFactor" by (simp add: samplingFactor_def)
  have h2: "1 < length airBoneStack" by (simp add: airBoneStack_def)
  from z_centered[OF h1 h2, of alwaysKeep emptyBuffers] h1 h2 show ?thesis by blast
qed

text \<open>
  Claim C7. For every non-empty stack and every outcome of the random draws, the cloud
  that reconstruction adds to the scene has position and colour arrays of the same
  length, and the \<open>k\<close>-th colour is the class colour of the very pixel whose position
  is the \<open>k\<close>-th point: both arrays are read off one list of samples.
\<close>

theorem points_colors_parallel:
  assumes "0 < stride" and "stack \<noteq> []"
  shows "\<exists>t' g m ps. createVolumeWith stride random stack (Some t) = Some (Inr (Some t'))
           \<and> last (children t') = Points g m (0, 0, 0)
           \<and> length (positionAttr g) = length (colorAttr g)
           \<and> length (triples (positionAttr g)) = length (triples (colorAttr g))
           \<and> triples (positionAttr g) = map (positionOf stack) ps
           \<and> triples (colorAttr g) = map (\<lambda>s. classColor (pixelAt stack s)) ps"
proof -
  from createVolumeWith_result[OF assms, of random t]
  obtain b ps where p: "pushed stride stack ps emptyBuffers b"
    and c: "createVolumeWith stride random stack (Some t) =
               Some (Inr (Some \<lparr>children = take 2 (children t) @ [pointCloudOf b],
                    cameraPositionZ =
                      max (max (of_nat (columns (image' (stack ! 0))))
                               (of_nat (rows (image' (stack ! 0)))))
                          (totalHeight stack) * (3 / 2)\<rparr>))" by blast
  define g where "g = \<lparr>positionAttr = vertices b, colorAttr = colors b\<rparr>"
  define m where "m = \<lparr>pointSize = 3 / 2, vertexColors = True, transparent = True, opacity = 7 / 10 :: rat\<rparr>"
  have pc: "pointCloudOf b = Points g m (0, 0, 0)" by (simp add: pointCloudOf_def g_def m_def)
  have v: "positionAttr g = flatten (map (positionOf stack) ps)"
    and k: "colorAttr g = flatten (map (\<lambda>s. classColor (pixelAt stack s)) ps)"
    using p by (simp_all add: pushed_def emptyBuffers_def g_def)
  have 1: "length (positionAttr g) = length (colorAttr g)"
    unfolding v k by (simp add: length_flatten)
  have 2: "triples (positionAttr g) = map (positionOf stack) ps"
    unfolding v by (rule triples_flatten)
  have 3: "triples (colorAttr g) = map (\<lambda>s. classColor (pixelAt stack s)) ps"
    unfolding k by (rule triples_flatten)
  have 4: "length (triples (positionAttr g)) = length (triples (colorAttr g))"
    unfolding 2 3 by simp
  from c pc 1 2 3 4 show ?thesis by force
qed

theorem points_colors_parallel_witness:
  "0 < samplingFactor \<and> airBoneStack \<noteq> []
   \<and> (\<exists>t' g m ps. createVolumeFromSlices alwaysKeep airBoneStack (Some newScene) = Some (Inr (Some t'))
           \<and> last (children t') = Points g m (0, 0, 0)
           \<and> length (positionAttr g) = length (colorAttr g)
           \<and> length (triples (positionAttr g)) = length (triples (colorAttr g))
           \<and> triples (positionAttr g) = map (positionOf airBoneStack) ps
           \<and> triples (colorAttr g) = map (\<lambda>s. classColor (pixelAt airBoneStack s)) ps)"
proof -
  have h1: "0 < samplingFactor" by (simp add: samplingFactor_def)
  have h2: "airBoneStack \<noteq> []" by (simp add: airBoneStack_def)
  from points_colors_parallel[OF h1 h2, of alwaysKeep newScene] h1 h2
  show ?thesis unfolding createVolumeFromSlices_def by blast
qed

section \<open>The slice stack normalizer\<close>










section \<open>Stacks of air\<close>







section \<open>Replacing the volume\<close>






end
